theory Spec2Isabelle
  imports Main "HOL-Library.Word"
begin

unbundle bit_operations_syntax

section \<open>The Hixie receiver (lib/Receiver.hixie.js)\<close>

text \<open>
  The class \<^verbatim>\<open>Receiver\<close> of lib/Receiver.hixie.js is a record of its five fields. The six
  callback slots (\<^verbatim>\<open>onerror\<close>, \<^verbatim>\<open>ontext\<close>, \<^verbatim>\<open>onclose\<close>, ...) are replaced by a log,
  \<open>dispatched\<close>, to which every callback invocation is appended in order; it is not a
  field of the class. A chunk is a Node Buffer, here a list of bytes. The numeric fields
  are JavaScript numbers; they are integers here (exact below \<open>2^53\<close>).
\<close>

type_synonym byte = "8 word"

datatype parser_state = EMPTY | BODY | BINARYLENGTH | BINARYBODY

datatype js_error = RangeError | TypeError

datatype rx_event =
    OnClose
  | OnText "byte list"
  | OnError string bool

record receiver =
  state :: parser_state
  buffers :: "byte list list"
  messageEnd :: int
  spanLength :: int
  dead :: bool
  dispatched :: "rx_event list"

text \<open>The constructor.\<close>

definition new_Receiver :: receiver where
  "new_Receiver = \<lparr>state = EMPTY, buffers = [], messageEnd = - 1, spanLength = 0,
     dead = False, dispatched = []\<rparr>"

definition reset :: "receiver \<Rightarrow> receiver" where
  "reset r = (if dead r then r
     else r\<lparr>state := EMPTY, buffers := [], messageEnd := - 1, spanLength := 0\<rparr>)"

definition cleanup :: "receiver \<Rightarrow> receiver" where
  "cleanup r = r\<lparr>dead := True, state := EMPTY, buffers := []\<rparr>"

definition error :: "string \<Rightarrow> bool \<Rightarrow> receiver \<Rightarrow> receiver" where
  "error err terminate r =
     (let r1 = reset r in r1\<lparr>dispatched := dispatched r1 @ [OnError err terminate]\<rparr>)"

text \<open>
  \<^verbatim>\<open>source.copy(target, targetStart, 0, sourceEnd)\<close>: Node copies as many bytes as fit
  into the target and nothing when \<open>targetStart\<close> is at or beyond its end. The result is
  the target after the copy.
\<close>

definition copy :: "byte list \<Rightarrow> byte list \<Rightarrow> nat \<Rightarrow> nat \<Rightarrow> byte list" where
  "copy source target targetStart sourceEnd =
     (let chunk = take (length target - targetStart) (take sourceEnd source)
      in take targetStart target @ chunk @ drop (targetStart + length chunk) target)"

text \<open>\<^verbatim>\<open>buf.slice(start)\<close>: a negative start counts from the end of the buffer.\<close>

definition slice :: "byte list \<Rightarrow> int \<Rightarrow> byte list" where
  "slice buf start =
     (if start < 0 then drop (nat (int (length buf) + start)) buf else drop (nat start) buf)"

text \<open>\<^verbatim>\<open>buf.indexOf(b)\<close>: the first position of the byte, or \<open>-1\<close>.\<close>

definition indexOf :: "byte \<Rightarrow> byte list \<Rightarrow> int" where
  "indexOf b buf =
     (if b \<in> set buf then int (length (takeWhile (\<lambda>x. x \<noteq> b) buf)) else - 1)"

text \<open>
  \<^verbatim>\<open>parse()\<close> returns the bytes after the frame (\<open>Some tail\<close>) or \<^verbatim>\<open>null\<close> (\<open>None\<close>), or
  throws: \<^verbatim>\<open>new Buffer(n)\<close> with a negative size is a RangeError, and reading the last
  buffer of an empty list is a TypeError, raised after \<open>messageEnd\<close> was decremented when
  the copy was skipped. \<^verbatim>\<open>new Buffer(n)\<close> does not initialise its bytes; the model shows
  a byte that is never written as 0. The text event carries the bytes of the message
  (the source decodes them as UTF-8). Node's limit on the size of a Buffer is not
  modelled.
\<close>

definition parse :: "receiver \<Rightarrow> (js_error + byte list option) \<times> receiver" where
  "parse r =
     (if spanLength r < 0 then (Inl RangeError, r)
      else if buffers r = [] then
        (if messageEnd r > 0 then (Inl TypeError, r)
         else if state r \<noteq> BODY then (Inl TypeError, r\<lparr>messageEnd := messageEnd r - 1\<rparr>)
         else (Inl TypeError, r))
      else
        let output0 = replicate (nat (spanLength r)) (0 :: byte);
            (output1, outputIndex) =
               foldl (\<lambda>(output, idx) buffer.
                        (copy buffer output idx (length buffer), idx + length buffer))
                     (output0, 0) (butlast (buffers r));
            lastBuffer = last (buffers r);
            output = (if messageEnd r > 0
                      then copy lastBuffer output1 outputIndex (nat (messageEnd r))
                      else output1);
            messageEnd1 = (if state r \<noteq> BODY then messageEnd r - 1 else messageEnd r);
            tail = (if messageEnd1 < int (length lastBuffer) - 1
                    then Some (slice lastBuffer (messageEnd1 + 1)) else None);
            r1 = reset (r\<lparr>messageEnd := messageEnd1\<rparr>)
        in (Inr tail, r1\<lparr>dispatched := dispatched r1 @ [OnText output]\<rparr>))"

text \<open>\<^verbatim>\<open>data[0] === b\<close>, which is false on an empty buffer (\<^verbatim>\<open>data[0]\<close> is undefined).\<close>

definition first_is :: "byte \<Rightarrow> byte list \<Rightarrow> bool" where
  "first_is b data = (case data of [] \<Rightarrow> False | x # _ \<Rightarrow> x = b)"

text \<open>
  The length prefix of a binary frame: the loop over the bytes with the high bit set,
  then the first byte without it. The result is the rest of the chunk and the receiver.
\<close>

definition binary_length :: "byte list \<Rightarrow> receiver \<Rightarrow> byte list \<times> receiver" where
  "binary_length data r =
     (let i = length (takeWhile (\<lambda>b. b AND 0x80 \<noteq> 0) data);
          m = foldl (\<lambda>m b. 128 * m + uint (b AND 0x7f)) (messageEnd r) (take i data)
      in if i < length data
         then (drop (Suc i) data,
               r\<lparr>messageEnd := 128 * m + uint ((data ! i) AND 0x7f), state := BINARYBODY\<rparr>)
         else (drop i data, r\<lparr>messageEnd := m\<rparr>))"

text \<open>
  The inner function \<^verbatim>\<open>doAdd\<close> of \<^verbatim>\<open>add\<close>. Its result is what it returns to the loop
  (\<open>Inr None\<close> for \<^verbatim>\<open>undefined\<close> or \<^verbatim>\<open>null\<close>, \<open>Inr (Some tail)\<close> for a buffer, \<open>Inl\<close> for
  an exception) and the receiver after it.
\<close>

definition doAdd :: "byte list \<Rightarrow> receiver \<Rightarrow> (js_error + byte list option) \<times> receiver" where
  "doAdd data r =
     (if state r = EMPTY \<and> length data = 2 \<and> data ! 0 = 0xFF \<and> data ! 1 = 0x00 then
        (let r1 = reset r in (Inr None, r1\<lparr>dispatched := dispatched r1 @ [OnClose]\<rparr>))
      else if state r = EMPTY \<and> \<not> first_is 0x80 data \<and> \<not> first_is 0x00 data then
        (Inr None, error ''payload must start with 0x00 byte'' True r)
      else
        let (data1, r1) =
              (if state r = EMPTY then
                 (if first_is 0x80 data
                  then (tl data, r\<lparr>messageEnd := 0, state := BINARYLENGTH\<rparr>)
                  else (tl data, r\<lparr>state := BODY\<rparr>))
               else (data, r));
            (data2, r2) =
              (if state r1 = BINARYLENGTH then binary_length data1 r1 else (data1, r1))
        in if state r2 = BINARYBODY then
             (let dataleft = messageEnd r2 - spanLength r2
              in if int (length data2) \<ge> dataleft then
                   parse (r2\<lparr>buffers := buffers r2 @ [data2],
                              spanLength := spanLength r2 + dataleft,
                              messageEnd := dataleft\<rparr>)
                 else (Inr None, r2\<lparr>buffers := buffers r2 @ [data2],
                                     spanLength := spanLength r2 + int (length data2)\<rparr>))
           else
             (let idx = indexOf 0xFF data2;
                  r3 = r2\<lparr>buffers := buffers r2 @ [data2], messageEnd := idx\<rparr>
              in if idx \<noteq> - 1 then parse (r3\<lparr>spanLength := spanLength r3 + idx\<rparr>)
                 else (Inr None, r3\<lparr>spanLength := spanLength r3 + int (length data2)\<rparr>)))"

text \<open>
  \<^verbatim>\<open>add(data)\<close> is the loop \<^verbatim>\<open>while (data) data = doAdd()\<close>; a Buffer is truthy even when
  it is empty, so the body runs at least once. The loop is given fuel, one unit for each
  run of the body: \<open>None\<close> means that the fuel ran out, \<open>Some (None, r)\<close> that \<^verbatim>\<open>add\<close>
  returned with the receiver \<open>r\<close>, \<open>Some (Some e, r)\<close> that it threw \<open>e\<close>.
\<close>

fun add :: "nat \<Rightarrow> byte list \<Rightarrow> receiver \<Rightarrow> (js_error option \<times> receiver) option" where
  "add 0 data r = None"
| "add (Suc fuel) data r =
     (case doAdd data r of
        (Inl e, r1) \<Rightarrow> Some (Some e, r1)
      | (Inr None, r1) \<Rightarrow> Some (None, r1)
      | (Inr (Some tail), r1) \<Rightarrow> add fuel tail r1)"

section \<open>The endpoint (lib/WebSocket.js)\<close>

text \<open>
  The endpoint is a record of the fields of a \<^verbatim>\<open>WebSocket\<close> object that its lifecycle
  code reads and writes. Every method and every event handler is a function from the
  state before to the state after. What the endpoint does to the outside (an event
  emitted to the user, a call of a Sender or socket method, a user callback invoked or
  scheduled, an exception thrown to the caller) is appended, in order, to the log \<open>out\<close>.

  The Sender, the HyBi Receiver, the socket, the HTTP request and the timer are not part
  of these sources. A call into one of them is an entry of the log; what comes back from
  one of them (a socket event, a Receiver callback, the completion callback of
  \<^verbatim>\<open>Sender.close\<close>, the expiry of the close timer, a request event) is an input of
  \<open>step\<close>. The two answers that decide a branch inside a method, whether
  \<^verbatim>\<open>Sender.close\<close> throws, completes at once or completes later, and whether
  \<^verbatim>\<open>socket.end()\<close> throws, are given with each input as an \<open>env\<close>.

  Listeners and callbacks of the user are not run inside a step: a call that a listener
  makes on the endpoint is the next input. An options object is a value here: where the
  source writes \<^verbatim>\<open>options.fin\<close> or a default into the caller's object, the model passes on
  the updated copy. The inbound bytes (the \<open>data\<close> handlers of the socket and
  \<^verbatim>\<open>bytesReceived\<close>) are not modelled: the HyBi Receiver's callbacks are inputs. The
  argument checks of the constructor and the construction of the request are left out. The fields \<^verbatim>\<open>_socket\<close>, \<^verbatim>\<open>_sender\<close> and
  \<^verbatim>\<open>_receiver\<close> say here whether the object is attached; the methods call the Sender and
  the socket only after they have found \<^verbatim>\<open>readyState\<close> to be OPEN, and the lemma
  \<open>attached_step\<close> shows that all three are attached in every OPEN state that is
  reached. \<open>extensions\<close> says whether \<^verbatim>\<open>extensions[PerMessageDeflate.extensionName]\<close> is
  set. A close code is a number or \<^verbatim>\<open>undefined\<close>, a reason a string or \<^verbatim>\<open>undefined\<close>.
\<close>

datatype ready_state = CONNECTING | OPEN | CLOSING | CLOSED

text \<open>
  The \<^verbatim>\<open>data\<close> argument of send, ping and pong: \<^verbatim>\<open>undefined\<close> or \<^verbatim>\<open>null\<close>, a string, a
  Buffer, or a readable stream (named by a number).
\<close>

datatype data = DUndefined | DText string | DBuffer "byte list" | DReadable nat

record options =
  opt_fin :: "bool option"
  opt_mask :: "bool option"
  opt_binary :: "bool option"
  opt_compress :: "bool option"

definition empty_options :: options where
  "empty_options = \<lparr>opt_fin = None, opt_mask = None, opt_binary = None, opt_compress = None\<rparr>"

text \<open>The second argument of send and stream: absent, an object, or the callback.\<close>

datatype optarg = NoOptions | Options options | Function nat

text \<open>
  Error objects: the ones this file creates, and \<open>Foreign n\<close> for an
  error object handed in by the socket, the Sender, the Receiver or the request.
\<close>

datatype ws_error =
    NotOpened
  | CallbackMustBeProvided
  | UnexpectedServerResponse
  | InvalidServerKey
  | SubprotocolError
  | InvalidExtensionParameter
  | Foreign nat

text \<open>
  Events emitted to the user. \<open>EvClose None\<close> is \<^verbatim>\<open>emit('close')\<close> without arguments,
  \<open>EvClose (Some (code, message))\<close> is \<^verbatim>\<open>emit('close', code, message)\<close>. The flags of a
  message, ping or pong are reduced to \<^verbatim>\<open>flags.binary === true\<close>.
\<close>

datatype event =
    EvOpen
  | EvClose "(nat \<times> string) option"
  | EvError ws_error
  | EvMessage data bool
  | EvPing data bool
  | EvPong data bool
  | EvUnexpectedResponse

datatype effect =
    Emit event
  | Sender_close "nat option" "string option" bool
  | Sender_ping data options
  | Sender_pong data options
  | Sender_send data options "nat option"
  | Socket_end
  | Socket_destroy
  | Socket_pause
  | Socket_resume
  | Ultron_destroy
  | Sender_removeAllListeners
  | Receiver_cleanup
  | Extension_cleanup
  | RemoveAllListeners
  | RawSocket_end
  | Req_abort
  | Callback nat "ws_error option"
  | NextTick nat options
  | SendStream nat options "nat option"
  | Throw ws_error

text \<open>A call waiting in \<^verbatim>\<open>_queue\<close>: the closure pushed by send or by stream.\<close>

datatype queued =
    QueuedSend data "options option" "nat option"
  | QueuedStream "options option" nat

record ws =
  readyState :: ready_state
  isServer :: bool
  closeReceived :: bool
  closeCode :: "nat option"
  closeMessage :: "string option"
  closeTimer :: "nat option"
  socket :: bool
  sender :: bool
  receiver :: bool
  extensions :: bool
  queue :: "queued list option"
  closeCallback :: bool
  pendingTicks :: nat
  reqError :: bool
  reqResponse :: bool
  reqUpgrade :: bool
  out :: "effect list"

text \<open>
  \<open>closeTimer\<close> is the pending timer of \<^verbatim>\<open>_closeTimer\<close> with its delay in milliseconds.
  Four fields are not fields of the object: \<open>closeCallback\<close> (the Sender still holds the
  completion callback of \<^verbatim>\<open>close\<close>), \<open>pendingTicks\<close> (the scheduled
  \<^verbatim>\<open>process.nextTick\<close> runs of \<^verbatim>\<open>executeQueueSends\<close>), and \<open>reqError\<close>, \<open>reqResponse\<close>,
  \<open>reqUpgrade\<close> (the handlers still registered on the client's HTTP request).
\<close>

datatype sender_result = SenderThrows ws_error | SenderCallsBack "ws_error option" | SenderDefers

record env =
  senderClose :: sender_result
  socketEndThrows :: bool

definition closeTimeout :: nat where
  "closeTimeout = 30 * 1000"

definition eff :: "effect \<Rightarrow> ws \<Rightarrow> ws" where
  "eff x s = s\<lparr>out := out s @ [x]\<rparr>"

definition emit :: "event \<Rightarrow> ws \<Rightarrow> ws" where
  "emit ev s = eff (Emit ev) s"

text \<open>\<^verbatim>\<open>this._closeCode || 1000\<close> and \<^verbatim>\<open>this._closeMessage || ''\<close>: 0 and \<^verbatim>\<open>undefined\<close> are falsy.\<close>

definition code_or_1000 :: "nat option \<Rightarrow> nat" where
  "code_or_1000 c = (case c of None \<Rightarrow> 1000 | Some n \<Rightarrow> if n = 0 then 1000 else n)"

definition message_or_empty :: "string option \<Rightarrow> string" where
  "message_or_empty m = (case m of None \<Rightarrow> [] | Some x \<Rightarrow> x)"

text \<open>
  \<^verbatim>\<open>cleanupWebsocketResources(error)\<close>; the argument is reduced to its truthiness.
  Exceptions of \<^verbatim>\<open>socket.end()\<close> and \<^verbatim>\<open>socket.destroy()\<close> are swallowed there.
\<close>

definition cleanupWebsocketResources :: "bool \<Rightarrow> ws \<Rightarrow> ws" where
  "cleanupWebsocketResources err s =
     (if readyState s = CLOSED then s
      else
        let s1 = s\<lparr>readyState := CLOSED, closeTimer := None\<rparr>;
            s2 = (if err \<or> \<not> closeReceived s1 then s1\<lparr>closeCode := Some 1006\<rparr> else s1);
            s3 = emit (EvClose (Some (code_or_1000 (closeCode s2),
                                      message_or_empty (closeMessage s2)))) s2;
            s4 = (if socket s3
                  then (eff (if err then Socket_destroy else Socket_end)
                          (eff Ultron_destroy s3))\<lparr>socket := False\<rparr>
                  else s3);
            s5 = (if sender s4 then (eff Sender_removeAllListeners s4)\<lparr>sender := False\<rparr>
                  else s4);
            s6 = (if receiver s5 then (eff Receiver_cleanup s5)\<lparr>receiver := False\<rparr>
                  else s5);
            s7 = (if extensions s6 then eff Extension_cleanup s6 else s6);
            s8 = eff RemoveAllListeners (s7\<lparr>extensions := False\<rparr>)
        in s8\<lparr>queue := None\<rparr>)"

definition terminate :: "env \<Rightarrow> ws \<Rightarrow> ws" where
  "terminate e s =
     (if readyState s = CLOSED then s
      else if socket s then
        (let s1 = eff Socket_end (s\<lparr>readyState := CLOSING\<rparr>)
         in if socketEndThrows e then cleanupWebsocketResources True s1
            else s1\<lparr>closeTimer := Some closeTimeout\<rparr>)
      else if readyState s = CONNECTING then cleanupWebsocketResources True s
      else s)"

text \<open>The completion callback that \<^verbatim>\<open>close\<close> hands to \<^verbatim>\<open>Sender.close\<close>.\<close>

definition close_callback :: "env \<Rightarrow> ws_error option \<Rightarrow> ws \<Rightarrow> ws" where
  "close_callback e err s =
     (let s1 = (case err of None \<Rightarrow> s | Some x \<Rightarrow> emit (EvError x) s)
      in if closeReceived s1 \<and> isServer s1 then terminate e s1
         else s1\<lparr>closeTimer := Some closeTimeout\<rparr>)"

definition close :: "env \<Rightarrow> nat option \<Rightarrow> string option \<Rightarrow> ws \<Rightarrow> ws" where
  "close e code dat s =
     (if readyState s = CLOSED then s
      else if readyState s = CONNECTING then s\<lparr>readyState := CLOSED\<rparr>
      else if readyState s = CLOSING then
        (if closeReceived s \<and> isServer s then terminate e s else s)
      else
        let s1 = s\<lparr>readyState := CLOSING, closeCode := code, closeMessage := dat\<rparr>;
            s2 = eff (Sender_close code dat (\<not> isServer s1)) s1
        in case senderClose e of
             SenderThrows x \<Rightarrow> emit (EvError x) s2
           | SenderCallsBack err \<Rightarrow> close_callback e err s2
           | SenderDefers \<Rightarrow> s2\<lparr>closeCallback := True\<rparr>)"

definition pause :: "ws \<Rightarrow> ws_error option \<times> ws" where
  "pause s = (if readyState s \<noteq> OPEN then (Some NotOpened, s) else (None, eff Socket_pause s))"

definition resume :: "ws \<Rightarrow> ws_error option \<times> ws" where
  "resume s = (if readyState s \<noteq> OPEN then (Some NotOpened, s) else (None, eff Socket_resume s))"

text \<open>
  \<^verbatim>\<open>options = options || {}\<close> and the default of \<^verbatim>\<open>options.mask\<close>, shared by ping and pong.
  The third argument is \<^verbatim>\<open>dontFailWhenClosed === true\<close>. The first component of the result
  is the exception thrown to the caller, if any.
\<close>

definition control_options :: "ws \<Rightarrow> options option \<Rightarrow> options" where
  "control_options s options =
     (let opts = (case options of None \<Rightarrow> empty_options | Some x \<Rightarrow> x)
      in if opt_mask opts = None then opts\<lparr>opt_mask := Some (\<not> isServer s)\<rparr> else opts)"

definition ping :: "data \<Rightarrow> options option \<Rightarrow> bool \<Rightarrow> ws \<Rightarrow> ws_error option \<times> ws" where
  "ping dat options dontFailWhenClosed s =
     (if readyState s \<noteq> OPEN then
        (if dontFailWhenClosed then (None, s) else (Some NotOpened, s))
      else (None, eff (Sender_ping dat (control_options s options)) s))"

definition pong :: "data \<Rightarrow> options option \<Rightarrow> bool \<Rightarrow> ws \<Rightarrow> ws_error option \<times> ws" where
  "pong dat options dontFailWhenClosed s =
     (if readyState s \<noteq> OPEN then
        (if dontFailWhenClosed then (None, s) else (Some NotOpened, s))
      else (None, eff (Sender_pong dat (control_options s options)) s))"

text \<open>
  The head of send and stream: \<^verbatim>\<open>if (typeof options === 'function')\<close> moves the second
  argument to the callback. A callback that is not a function is \<open>None\<close>.
\<close>

definition callback_of :: "optarg \<Rightarrow> nat option \<Rightarrow> nat option" where
  "callback_of optarg cb = (case optarg of Function f \<Rightarrow> Some f | _ \<Rightarrow> cb)"

definition options_of :: "optarg \<Rightarrow> options option" where
  "options_of optarg =
     (case optarg of NoOptions \<Rightarrow> None | Options x \<Rightarrow> Some x | Function f \<Rightarrow> Some empty_options)"

text \<open>\<^verbatim>\<open>if (!data) data = ''\<close>.\<close>

definition data_or_empty :: "data \<Rightarrow> data" where
  "data_or_empty dat = (if dat = DUndefined \<or> dat = DText [] then DText [] else dat)"

definition is_buffer :: "data \<Rightarrow> bool" where
  "is_buffer dat = (case dat of DBuffer _ \<Rightarrow> True | _ \<Rightarrow> False)"

definition send_options :: "ws \<Rightarrow> data \<Rightarrow> options option \<Rightarrow> options" where
  "send_options s dat options =
     (let o0 = (case options of None \<Rightarrow> empty_options | Some x \<Rightarrow> x);
          o1 = o0\<lparr>opt_fin := Some True\<rparr>;
          o2 = (if opt_binary o1 = None then o1\<lparr>opt_binary := Some (is_buffer dat)\<rparr> else o1);
          o3 = (if opt_mask o2 = None then o2\<lparr>opt_mask := Some (\<not> isServer s)\<rparr> else o2);
          o4 = (if opt_compress o3 = None then o3\<lparr>opt_compress := Some True\<rparr> else o3)
      in if \<not> extensions s then o4\<lparr>opt_compress := Some False\<rparr> else o4)"

definition stream_options :: "ws \<Rightarrow> options option \<Rightarrow> options" where
  "stream_options s options =
     (let o0 = (case options of None \<Rightarrow> empty_options | Some x \<Rightarrow> x);
          o1 = (if opt_mask o0 = None then o0\<lparr>opt_mask := Some (\<not> isServer s)\<rparr> else o0);
          o2 = (if opt_compress o1 = None then o1\<lparr>opt_compress := Some True\<rparr> else o1)
      in if \<not> extensions s then o2\<lparr>opt_compress := Some False\<rparr> else o2)"

definition startQueue :: "ws \<Rightarrow> ws" where
  "startQueue s = s\<lparr>queue := Some (case queue s of None \<Rightarrow> [] | Some q \<Rightarrow> q)\<rparr>"

text \<open>
  \<^verbatim>\<open>send(data, options, cb)\<close>. For a readable stream, \<open>SendStream\<close> records the call of
  \<^verbatim>\<open>sendStream\<close>, which attaches the handlers \<open>sendStream_data\<close> and \<open>sendStream_end\<close>
  below to the stream.
\<close>

definition send :: "data \<Rightarrow> optarg \<Rightarrow> nat option \<Rightarrow> ws \<Rightarrow> ws_error option \<times> ws" where
  "send dat0 optarg cb0 s =
     (let cb = callback_of optarg cb0;
          options = options_of optarg
      in if readyState s \<noteq> OPEN then
           (case cb of
              Some f \<Rightarrow> (None, eff (Callback f (Some NotOpened)) s)
            | None \<Rightarrow> (Some NotOpened, s))
         else
           let dat = data_or_empty dat0
           in case queue s of
                Some q \<Rightarrow> (None, s\<lparr>queue := Some (q @ [QueuedSend dat options cb])\<rparr>)
              | None \<Rightarrow>
                  (case dat of
                     DReadable rs \<Rightarrow>
                       (None, eff (SendStream rs (send_options s dat options) cb) (startQueue s))
                   | _ \<Rightarrow> (None, eff (Sender_send dat (send_options s dat options) cb) s)))"

text \<open>
  \<^verbatim>\<open>stream(options, cb)\<close>. \<open>NextTick f opts\<close> records
  \<^verbatim>\<open>process.nextTick(cb.bind(null, null, send))\<close>: the callback \<open>f\<close> will be given the
  inner function \<^verbatim>\<open>send\<close>, which has captured \<open>opts\<close> and \<open>f\<close>.
\<close>

definition stream :: "optarg \<Rightarrow> nat option \<Rightarrow> ws \<Rightarrow> ws_error option \<times> ws" where
  "stream optarg cb0 s =
     (let cb = callback_of optarg cb0;
          options = options_of optarg
      in case cb of
           None \<Rightarrow> (Some CallbackMustBeProvided, s)
         | Some f \<Rightarrow>
             if readyState s \<noteq> OPEN then (None, eff (Callback f (Some NotOpened)) s)
             else
               (case queue s of
                  Some q \<Rightarrow> (None, s\<lparr>queue := Some (q @ [QueuedStream options f])\<rparr>)
                | None \<Rightarrow> (None, eff (NextTick f (stream_options s options)) (startQueue s))))"

text \<open>
  \<^verbatim>\<open>executeQueueSends\<close>: the queue is removed, then its closures are called in index
  order. A closure that throws ends the loop, and the exception leaves the function.
\<close>

fun replay :: "queued \<Rightarrow> ws \<Rightarrow> ws_error option \<times> ws" where
  "replay (QueuedSend dat options cb) s =
     send dat (case options of None \<Rightarrow> NoOptions | Some x \<Rightarrow> Options x) cb s"
| "replay (QueuedStream options cb) s =
     stream (case options of None \<Rightarrow> NoOptions | Some x \<Rightarrow> Options x) (Some cb) s"

fun run_queue :: "queued list \<Rightarrow> ws \<Rightarrow> ws_error option \<times> ws" where
  "run_queue [] s = (None, s)"
| "run_queue (c # cs) s =
     (case replay c s of
        (Some x, s1) \<Rightarrow> (Some x, s1)
      | (None, s1) \<Rightarrow> run_queue cs s1)"

definition executeQueueSends :: "ws \<Rightarrow> ws_error option \<times> ws" where
  "executeQueueSends s =
     (case queue s of None \<Rightarrow> (None, s) | Some q \<Rightarrow> run_queue q (s\<lparr>queue := None\<rparr>))"

text \<open>
  The inner function \<^verbatim>\<open>send(data, final)\<close> of stream, with the options and the callback
  it has captured; \<open>final\<close> is a boolean. Its \<^verbatim>\<open>catch\<close> hands every exception to the
  callback, which is a function there.
\<close>

definition stream_send :: "options \<Rightarrow> nat \<Rightarrow> data \<Rightarrow> bool \<Rightarrow> ws \<Rightarrow> ws" where
  "stream_send options cb dat final s =
     (if readyState s \<noteq> OPEN then eff (Callback cb (Some NotOpened)) s
      else
        let s1 = eff (Sender_send dat (options\<lparr>opt_fin := Some final\<rparr>) None) s
        in if \<not> final then eff (NextTick cb (options\<lparr>opt_fin := Some final\<rparr>)) s1
           else (case executeQueueSends s1 of
                   (None, s2) \<Rightarrow> s2
                 | (Some x, s2) \<Rightarrow> eff (Callback cb (Some x)) s2))"

text \<open>
  The callback that send passes to \<^verbatim>\<open>sendStream\<close> (it schedules \<^verbatim>\<open>executeQueueSends\<close>
  and calls the user's callback), and the two handlers of \<^verbatim>\<open>sendStream\<close>.
\<close>

definition sendStream_cb :: "nat option \<Rightarrow> ws_error option \<Rightarrow> ws \<Rightarrow> ws" where
  "sendStream_cb cb err s =
     (let s1 = s\<lparr>pendingTicks := Suc (pendingTicks s)\<rparr>
      in case cb of None \<Rightarrow> s1 | Some f \<Rightarrow> eff (Callback f err) s1)"

definition sendStream_data :: "options \<Rightarrow> nat option \<Rightarrow> data \<Rightarrow> ws \<Rightarrow> ws" where
  "sendStream_data options cb dat s =
     (if readyState s \<noteq> OPEN then sendStream_cb cb (Some NotOpened) s
      else eff (Sender_send dat (options\<lparr>opt_fin := Some False\<rparr>) None) s)"

definition sendStream_end :: "options \<Rightarrow> nat option \<Rightarrow> ws \<Rightarrow> ws" where
  "sendStream_end options cb s =
     (if readyState s \<noteq> OPEN then sendStream_cb cb (Some NotOpened) s
      else sendStream_cb cb None
             (eff (Sender_send DUndefined (options\<lparr>opt_fin := Some True\<rparr>) None) s))"

text \<open>\<^verbatim>\<open>establishConnection\<close> and the handlers it installs on the Receiver and the Sender.\<close>

definition establishConnection :: "ws \<Rightarrow> ws" where
  "establishConnection s =
     emit EvOpen (s\<lparr>receiver := True, socket := True, sender := True, readyState := OPEN\<rparr>)"

definition ontext :: "data \<Rightarrow> bool \<Rightarrow> ws \<Rightarrow> ws" where
  "ontext dat binary s = emit (EvMessage dat binary) s"

definition onbinary :: "data \<Rightarrow> bool \<Rightarrow> ws \<Rightarrow> ws" where
  "onbinary dat binary s = emit (EvMessage dat True) s"

definition onping :: "data \<Rightarrow> bool \<Rightarrow> ws \<Rightarrow> ws" where
  "onping dat binary s =
     (case pong dat (Some (empty_options\<lparr>opt_mask := Some (\<not> isServer s),
                                          opt_binary := Some binary\<rparr>)) True s of
        (Some x, s1) \<Rightarrow> eff (Throw x) s1
      | (None, s1) \<Rightarrow> emit (EvPing dat binary) s1)"

definition onpong :: "data \<Rightarrow> bool \<Rightarrow> ws \<Rightarrow> ws" where
  "onpong dat binary s = emit (EvPong dat binary) s"

definition onclose :: "env \<Rightarrow> nat option \<Rightarrow> string option \<Rightarrow> ws \<Rightarrow> ws" where
  "onclose e code dat s = close e code dat (s\<lparr>closeReceived := True\<rparr>)"

definition onerror :: "env \<Rightarrow> ws_error \<Rightarrow> nat option \<Rightarrow> ws \<Rightarrow> ws" where
  "onerror e err errorCode s = emit (EvError err) (close e errorCode (Some []) s)"

definition sender_onerror :: "env \<Rightarrow> ws_error \<Rightarrow> ws \<Rightarrow> ws" where
  "sender_onerror e err s = emit (EvError err) (close e (Some 1002) (Some []) s)"

text \<open>
  The constructor. \<^verbatim>\<open>initAsServerClient\<close> establishes the connection at once;
  \<^verbatim>\<open>initAsClient\<close> sends the request and leaves the endpoint CONNECTING with the three
  request handlers registered.
\<close>

definition new_WebSocket :: ws where
  "new_WebSocket = \<lparr>readyState = CONNECTING, isServer = False, closeReceived = False,
     closeCode = None, closeMessage = None, closeTimer = None, socket = False,
     sender = False, receiver = False, extensions = False, queue = None,
     closeCallback = False, pendingTicks = 0, reqError = False, reqResponse = False,
     reqUpgrade = False, out = []\<rparr>"

definition initAsServerClient :: "bool \<Rightarrow> ws" where
  "initAsServerClient deflate =
     establishConnection (new_WebSocket\<lparr>extensions := deflate, readyState := CONNECTING,
                                          isServer := True\<rparr>)"

definition initAsClient :: ws where
  "initAsClient = new_WebSocket\<lparr>isServer := False, reqError := True, reqResponse := True,
                                 reqUpgrade := True, readyState := CONNECTING\<rparr>"

text \<open>
  The handlers of the client's request. The checks of the upgrade handler on the
  response headers (server key, subprotocol, extension parameters) are an input: the
  handshake is accepted, with or without permessage-deflate, or rejected with the error
  that the handler emits.
\<close>

datatype handshake = Accepted bool | Rejected ws_error

definition req_onerror :: "ws_error \<Rightarrow> ws \<Rightarrow> ws" where
  "req_onerror err s = cleanupWebsocketResources True (emit (EvError err) s)"

text \<open>\<open>listened\<close> is the result of \<^verbatim>\<open>self.emit('unexpected-response', req, res)\<close>.\<close>

definition req_response :: "bool \<Rightarrow> ws \<Rightarrow> ws" where
  "req_response listened s =
     (let s1 = emit EvUnexpectedResponse s
      in if \<not> listened
         then cleanupWebsocketResources True
                (emit (EvError UnexpectedServerResponse) (eff Req_abort s1))
         else cleanupWebsocketResources False s1)"

definition req_upgrade :: "handshake \<Rightarrow> ws \<Rightarrow> ws" where
  "req_upgrade h s =
     (if readyState s = CLOSED then
        eff RawSocket_end (eff RemoveAllListeners (emit (EvClose None) s))
      else case h of
             Rejected err \<Rightarrow> eff RawSocket_end (eff RemoveAllListeners (emit (EvError err) s))
           | Accepted deflate \<Rightarrow>
               (establishConnection (if deflate then s\<lparr>extensions := True\<rparr> else s))
                 \<lparr>reqError := False, reqResponse := False\<rparr>)"

section \<open>Inputs and steps\<close>

datatype input =
    UClose "nat option" "string option"
  | UTerminate
  | UPause
  | UResume
  | UPing data "options option" bool
  | UPong data "options option" bool
  | USend data optarg "nat option"
  | UStream optarg "nat option"
  | UStreamSend options nat data bool
  | ReadableData options "nat option" data
  | ReadableEnd options "nat option"
  | Tick
  | SocketEnd
  | SocketClose bool
  | SocketError ws_error
  | CloseTimerFires
  | SenderCloseDone "ws_error option"
  | SenderError ws_error
  | RxText data bool
  | RxBinary data bool
  | RxPing data bool
  | RxPong data bool
  | RxClose "nat option" "string option"
  | RxError ws_error "nat option"
  | ReqError ws_error
  | ReqResponse bool
  | ReqUpgrade handshake

text \<open>An exception that leaves a method or a handler is logged as \<open>Throw\<close>.\<close>

definition thrown :: "ws_error option \<times> ws \<Rightarrow> ws" where
  "thrown r = (case r of (None, s) \<Rightarrow> s | (Some x, s) \<Rightarrow> eff (Throw x) s)"

text \<open>
  One input. An event reaches its handler only while the handler is registered: the
  socket handlers while the socket is attached (cleanup destroys them), the Receiver's
  and the Sender's while these are attached, the timer while it is pending, the
  Sender's completion callback and a scheduled tick once each, the request's \<open>response\<close>
  and \<open>upgrade\<close> handlers once.
\<close>

fun step :: "env \<Rightarrow> input \<Rightarrow> ws \<Rightarrow> ws" where
  "step e (UClose code dat) s = close e code dat s"
| "step e UTerminate s = terminate e s"
| "step e UPause s = thrown (pause s)"
| "step e UResume s = thrown (resume s)"
| "step e (UPing dat options dontFail) s = thrown (ping dat options dontFail s)"
| "step e (UPong dat options dontFail) s = thrown (pong dat options dontFail s)"
| "step e (USend dat optarg cb) s = thrown (send dat optarg cb s)"
| "step e (UStream optarg cb) s = thrown (stream optarg cb s)"
| "step e (UStreamSend options cb dat final) s = stream_send options cb dat final s"
| "step e (ReadableData options cb dat) s = sendStream_data options cb dat s"
| "step e (ReadableEnd options cb) s = sendStream_end options cb s"
| "step e Tick s =
     (if pendingTicks s = 0 then s
      else thrown (executeQueueSends (s\<lparr>pendingTicks := pendingTicks s - 1\<rparr>)))"
| "step e SocketEnd s = (if socket s then cleanupWebsocketResources False s else s)"
| "step e (SocketClose hadError) s =
     (if socket s then cleanupWebsocketResources hadError s else s)"
| "step e (SocketError err) s = (if socket s then cleanupWebsocketResources True s else s)"
| "step e CloseTimerFires s =
     (if closeTimer s = None then s
      else cleanupWebsocketResources True (s\<lparr>closeTimer := None\<rparr>))"
| "step e (SenderCloseDone err) s =
     (if closeCallback s then close_callback e err (s\<lparr>closeCallback := False\<rparr>) else s)"
| "step e (SenderError err) s = (if sender s then sender_onerror e err s else s)"
| "step e (RxText dat binary) s = (if receiver s then ontext dat binary s else s)"
| "step e (RxBinary dat binary) s = (if receiver s then onbinary dat binary s else s)"
| "step e (RxPing dat binary) s = (if receiver s then onping dat binary s else s)"
| "step e (RxPong dat binary) s = (if receiver s then onpong dat binary s else s)"
| "step e (RxClose code dat) s = (if receiver s then onclose e code dat s else s)"
| "step e (RxError err errorCode) s = (if receiver s then onerror e err errorCode s else s)"
| "step e (ReqError err) s = (if reqError s then req_onerror err s else s)"
| "step e (ReqResponse listened) s =
     (if reqResponse s then req_response listened (s\<lparr>reqResponse := False\<rparr>) else s)"
| "step e (ReqUpgrade h) s =
     (if reqUpgrade s then req_upgrade h (s\<lparr>reqUpgrade := False\<rparr>) else s)"

fun run :: "(env \<times> input) list \<Rightarrow> ws \<Rightarrow> ws" where
  "run [] s = s"
| "run ((e, i) # rest) s = run rest (step e i s)"

text \<open>The \<open>close\<close> events of a log, in order, and their number.\<close>

fun close_events :: "effect list \<Rightarrow> (nat \<times> string) option list" where
  "close_events [] = []"
| "close_events (Emit (EvClose c) # xs) = c # close_events xs"
| "close_events (x # xs) = close_events xs"

definition closes :: "ws \<Rightarrow> nat" where
  "closes s = length (close_events (out s))"

section \<open>Notions used in the statements\<close>

text \<open>
  The inputs that call \<^verbatim>\<open>close\<close> (the user's call, and the handlers of a received close
  frame, of a Receiver error and of a Sender error), and the upgrade event of the request.
\<close>

definition calls_close :: "input \<Rightarrow> bool" where
  "calls_close i =
     (case i of UClose _ _ \<Rightarrow> True | RxClose _ _ \<Rightarrow> True | RxError _ _ \<Rightarrow> True
      | SenderError _ \<Rightarrow> True | _ \<Rightarrow> False)"

definition is_upgrade :: "input \<Rightarrow> bool" where
  "is_upgrade i = (case i of ReqUpgrade _ \<Rightarrow> True | _ \<Rightarrow> False)"

text \<open>
  \<open>good s t\<close> relates the state before a method or handler to the state after it. It
  holds for all of them except \<^verbatim>\<open>close\<close> on a CONNECTING endpoint and the upgrade handler:
  CLOSED is final and keeps the close code and reason, CONNECTING is not entered again,
  OPEN is not entered and keeps the attached objects, and the log gains one \<open>close\<close>
  event, with the stored code and reason, when the state becomes CLOSED, and none
  otherwise.
\<close>

definition good :: "ws \<Rightarrow> ws \<Rightarrow> bool" where
  "good s t \<longleftrightarrow>
     reqUpgrade t = reqUpgrade s
     \<and> (readyState s = CLOSED \<longrightarrow>
          readyState t = CLOSED \<and> closeCode t = closeCode s \<and> closeMessage t = closeMessage s)
     \<and> (readyState s \<noteq> CONNECTING \<longrightarrow> readyState t \<noteq> CONNECTING)
     \<and> (readyState t = OPEN \<longrightarrow>
          readyState s = OPEN \<and> socket t = socket s \<and> sender t = sender s
          \<and> receiver t = receiver s)
     \<and> close_events (out t) = close_events (out s) @
           (if readyState s \<noteq> CLOSED \<and> readyState t = CLOSED
            then [Some (code_or_1000 (closeCode t), message_or_empty (closeMessage t))]
            else [])"

text \<open>In an OPEN state the socket, the Sender and the Receiver are attached.\<close>

definition attached :: "ws \<Rightarrow> bool" where
  "attached s \<longleftrightarrow> (readyState s = OPEN \<longrightarrow> socket s \<and> sender s \<and> receiver s)"




section \<open>Properties of the Hixie receiver\<close>

text \<open>
  Claim C8: after \<^verbatim>\<open>cleanup()\<close> every later \<^verbatim>\<open>add(chunk)\<close> is a no-op that changes no receiver
  state and dispatches no events. The code does not do this. \<^verbatim>\<open>cleanup\<close> sets \<open>dead\<close>, and
  \<^verbatim>\<open>reset\<close> returns at once when \<open>dead\<close> is set, but \<^verbatim>\<open>add\<close> never reads \<open>dead\<close>: on a
  receiver that was cleaned up, in whatever state it was before, the two bytes FF 00
  dispatch \<^verbatim>\<open>onclose\<close>, and the bytes 00 41 move the parser to BODY and buffer a byte.
\<close>

theorem C8_add_after_cleanup:
  "add (Suc fuel) [0xFF, 0x00] (cleanup r) =
     Some (None, (cleanup r)\<lparr>dispatched := dispatched r @ [OnClose]\<rparr>)
   \<and> add (Suc fuel) [0x00, 0x41] (cleanup r) =
     Some (None, (cleanup r)\<lparr>state := BODY, buffers := [[0x41]], messageEnd := - 1,
                             spanLength := spanLength r + 1\<rparr>)"
  by (simp add: doAdd_def cleanup_def reset_def first_is_def indexOf_def)

text \<open>
  Claim C9, as stated: in every receiver state \<^verbatim>\<open>add\<close> with an empty chunk leaves the state
  unchanged and dispatches no events, in particular no error. On a new receiver the
  empty chunk is answered with the error event \<^verbatim>\<open>payload must start with 0x00 byte\<close>.
\<close>

theorem C9_counterexample:
  "add 1 [] new_Receiver =
     Some (None, new_Receiver\<lparr>dispatched :=
                    [OnError ''payload must start with 0x00 byte'' True]\<rparr>)
   \<and> add 1 [] new_Receiver \<noteq> Some (None, new_Receiver)"
  by (simp add: doAdd_def new_Receiver_def reset_def first_is_def error_def)

text \<open>
  Claim C9, amended: inside a message body, that is in state BODY, or in state BINARYBODY
  with bytes of the frame still outstanding, \<^verbatim>\<open>add\<close> with an empty chunk returns without
  an exception, dispatches no events and leaves \<open>state\<close>, \<open>spanLength\<close> and \<open>dead\<close>
  unchanged; it appends the empty chunk to \<open>buffers\<close>, and in BODY it stores \<open>-1\<close> in
  \<open>messageEnd\<close>.
\<close>

theorem C9_empty_chunk_in_body:
  "(state r = BODY \<longrightarrow>
      add (Suc fuel) [] r = Some (None, r\<lparr>buffers := buffers r @ [[]], messageEnd := - 1\<rparr>))
   \<and> (state r = BINARYBODY \<and> spanLength r < messageEnd r \<longrightarrow>
      add (Suc fuel) [] r = Some (None, r\<lparr>buffers := buffers r @ [[]]\<rparr>))"
  by (simp add: doAdd_def indexOf_def)

theorem C9_empty_chunk_in_body_witness:
  "state \<lparr>state = BODY, buffers = [[0x41]], messageEnd = - 1, spanLength = 1,
           dead = False, dispatched = []\<rparr> = BODY
   \<and> add 1 [] \<lparr>state = BODY, buffers = [[0x41]], messageEnd = - 1, spanLength = 1,
                 dead = False, dispatched = []\<rparr>
      = Some (None, \<lparr>state = BODY, buffers = [[0x41], []], messageEnd = - 1, spanLength = 1,
                      dead = False, dispatched = []\<rparr>)
   \<and> state \<lparr>state = BINARYBODY, buffers = [[1]], messageEnd = 5, spanLength = 1,
             dead = False, dispatched = []\<rparr> = BINARYBODY
   \<and> spanLength \<lparr>state = BINARYBODY, buffers = [[1]], messageEnd = 5, spanLength = 1,
                  dead = False, dispatched = []\<rparr>
       < messageEnd \<lparr>state = BINARYBODY, buffers = [[1]], messageEnd = 5, spanLength = 1,
                      dead = False, dispatched = []\<rparr>
   \<and> add 1 [] \<lparr>state = BINARYBODY, buffers = [[1]], messageEnd = 5, spanLength = 1,
                 dead = False, dispatched = []\<rparr>
      = Some (None, \<lparr>state = BINARYBODY, buffers = [[1], []], messageEnd = 5, spanLength = 1,
                      dead = False, dispatched = []\<rparr>)"
  using C9_empty_chunk_in_body [of "\<lparr>state = BODY, buffers = [[0x41]], messageEnd = - 1,
          spanLength = 1, dead = False, dispatched = []\<rparr>" 0]
        C9_empty_chunk_in_body [of "\<lparr>state = BINARYBODY, buffers = [[1]], messageEnd = 5,
          spanLength = 1, dead = False, dispatched = []\<rparr>" 0]
  by simp

section \<open>Properties of the endpoint\<close>

lemma close_events_append: "close_events (xs @ ys) = close_events xs @ close_events ys"
  by (induction xs rule: close_events.induct) simp_all

lemma close_events_eff:
  "close_events (out (eff x s)) = close_events (out s) @ close_events [x]"
  by (simp add: eff_def close_events_append)

lemma good_refl: "good s s"
  by (simp add: good_def)

lemma good_trans: "good s t \<Longrightarrow> good t u \<Longrightarrow> good s u"
  unfolding good_def
  by (cases "readyState s = CLOSED"; cases "readyState t = CLOSED";
      cases "readyState u = CLOSED"; simp)

lemma good_eff: "close_events [x] = [] \<Longrightarrow> good s (eff x s)"
  by (simp add: good_def close_events_eff) (simp add: eff_def)

lemma good_emit: "close_events [Emit ev] = [] \<Longrightarrow> good s (emit ev s)"
  unfolding emit_def by (rule good_eff)

lemma good_upd:
  "readyState t = readyState s \<Longrightarrow> reqUpgrade t = reqUpgrade s \<Longrightarrow> out t = out s
   \<Longrightarrow> socket t = socket s \<Longrightarrow> sender t = sender s \<Longrightarrow> receiver t = receiver s
   \<Longrightarrow> closeCode t = closeCode s \<Longrightarrow> closeMessage t = closeMessage s
   \<Longrightarrow> good s t"
  by (simp add: good_def)

lemma good_cleanup: "good s (cleanupWebsocketResources err s)"
  by (simp add: good_def cleanupWebsocketResources_def Let_def emit_def eff_def close_events_append)

lemma good_closing:
  "readyState s \<noteq> CLOSED \<Longrightarrow> reqUpgrade t = reqUpgrade s \<Longrightarrow> out t = out s
   \<Longrightarrow> readyState t = CLOSING \<Longrightarrow> good s t"
  by (simp add: good_def)

lemma good_terminate: "good s (terminate e s)"
proof -
  have a: "readyState s \<noteq> CLOSED \<Longrightarrow> good s (eff Socket_end (s\<lparr>readyState := CLOSING\<rparr>))"
    by (rule good_trans [OF good_closing [of s "s\<lparr>readyState := CLOSING\<rparr>"] good_eff]) simp_all
  have b: "readyState s \<noteq> CLOSED \<Longrightarrow>
        good s ((eff Socket_end (s\<lparr>readyState := CLOSING\<rparr>))\<lparr>closeTimer := Some closeTimeout\<rparr>)"
    by (rule good_trans [OF a good_upd]) simp_all
  show ?thesis
    unfolding terminate_def Let_def
    using a b by (auto intro: good_refl good_cleanup good_trans)
qed

lemma good_close_callback: "good s (close_callback e err s)"
proof -
  have a: "good s (case err of None \<Rightarrow> s | Some x \<Rightarrow> emit (EvError x) s)"
    by (cases err) (simp_all add: good_refl good_emit)
  show ?thesis
    unfolding close_callback_def Let_def
    by (auto intro: good_trans [OF a good_terminate] good_trans [OF a good_upd])
qed

lemma good_close: "readyState s \<noteq> CONNECTING \<Longrightarrow> good s (close e code dat s)"
proof -
  assume nc: "readyState s \<noteq> CONNECTING"
  define s1 where "s1 = s\<lparr>readyState := CLOSING, closeCode := code, closeMessage := dat\<rparr>"
  define s2 where "s2 = eff (Sender_close code dat (\<not> isServer s1)) s1"
  have a: "good s s2" if "readyState s = OPEN"
    unfolding s2_def
    by (rule good_trans [OF good_closing [of s s1] good_eff]) (simp_all add: s1_def that)
  have b: "good s (case senderClose e of
             SenderThrows x \<Rightarrow> emit (EvError x) s2
           | SenderCallsBack err \<Rightarrow> close_callback e err s2
           | SenderDefers \<Rightarrow> s2\<lparr>closeCallback := True\<rparr>)" if "readyState s = OPEN"
  proof (cases "senderClose e")
    case (SenderThrows x)
    then show ?thesis using good_trans [OF a [OF that] good_emit] by simp
  next
    case (SenderCallsBack err)
    then show ?thesis using good_trans [OF a [OF that] good_close_callback] by simp
  next
    case SenderDefers
    then show ?thesis using good_trans [OF a [OF that] good_upd [of "s2\<lparr>closeCallback := True\<rparr>" s2]] by simp
  qed
  show ?thesis
  proof (cases "readyState s")
    case OPEN
    then show ?thesis using b unfolding close_def Let_def s1_def s2_def by simp
  qed (use nc in \<open>auto simp: close_def intro: good_refl good_terminate\<close>)
qed

lemma good_thrown: "good s (snd r) \<Longrightarrow> good s (thrown r)"
  by (cases r; cases "fst r") (auto simp: thrown_def intro: good_trans [OF _ good_eff])

lemma good_pause: "good s (snd (pause s))"
  by (simp add: pause_def good_refl good_eff)

lemma good_resume: "good s (snd (resume s))"
  by (simp add: resume_def good_refl good_eff)

lemma good_ping: "good s (snd (ping dat options d s))"
  by (simp add: ping_def good_refl good_eff)

lemma good_pong: "good s (snd (pong dat options d s))"
  by (simp add: pong_def good_refl good_eff)

lemma good_startQueue: "good s (startQueue s)"
  by (rule good_upd) (simp_all add: startQueue_def)

lemma good_send: "good s (snd (send dat optarg cb s))"
  unfolding send_def Let_def
  by (auto split: option.splits data.splits
           intro: good_refl good_eff good_upd good_trans [OF good_startQueue good_eff])

lemma good_stream: "good s (snd (stream optarg cb s))"
  unfolding stream_def Let_def
  by (auto split: option.splits
           intro: good_refl good_eff good_upd good_trans [OF good_startQueue good_eff])

lemma good_replay: "good s (snd (replay c s))"
  by (cases c) (simp_all add: good_send good_stream)

lemma good_run_queue: "good s (snd (run_queue q s))"
proof (induction q arbitrary: s)
  case Nil
  show ?case by (simp add: good_refl)
next
  case (Cons c cs)
  show ?case
  proof (cases "replay c s")
    case (Pair x s1)
    with good_replay [of s c] have g: "good s s1" by simp
    show ?thesis
      using Pair g Cons.IH [of s1] by (cases x) (auto intro: good_trans)
  qed
qed

lemma good_executeQueueSends: "good s (snd (executeQueueSends s))"
  unfolding executeQueueSends_def
  by (auto split: option.splits intro: good_refl good_trans [OF good_upd good_run_queue])

lemma good_stream_send: "good s (stream_send options cb dat final s)"
proof -
  let ?s1 = "eff (Sender_send dat (options\<lparr>opt_fin := Some final\<rparr>) None) s"
  have a: "good s ?s1" by (simp add: good_eff)
  have b: "good s (snd (executeQueueSends ?s1))"
    by (rule good_trans [OF a good_executeQueueSends])
  show ?thesis
    unfolding stream_send_def Let_def using a b
    by (auto split: prod.splits option.splits intro: good_eff good_trans [OF _ good_eff])
qed

lemma good_sendStream_cb: "good s (sendStream_cb cb err s)"
  unfolding sendStream_cb_def Let_def
  by (auto split: option.splits intro: good_upd good_trans [OF good_upd good_eff])

lemma good_sendStream_data: "good s (sendStream_data options cb dat s)"
  by (simp add: sendStream_data_def good_sendStream_cb good_eff)

lemma good_sendStream_end: "good s (sendStream_end options cb s)"
  by (auto simp: sendStream_end_def good_sendStream_cb intro: good_trans [OF good_eff good_sendStream_cb])

lemma good_onping: "good s (onping dat binary s)"
proof -
  obtain x s1 where p: "pong dat (Some (empty_options\<lparr>opt_mask := Some (\<not> isServer s),
                                          opt_binary := Some binary\<rparr>)) True s = (x, s1)"
    by (cases "pong dat (Some (empty_options\<lparr>opt_mask := Some (\<not> isServer s),
                                          opt_binary := Some binary\<rparr>)) True s") auto
  with good_pong [of s dat _ True] have g: "good s s1" by (metis snd_conv)
  show ?thesis
    unfolding onping_def p
    by (cases x) (auto intro: good_trans [OF g good_eff] good_trans [OF g good_emit])
qed

lemma good_onclose: "readyState s \<noteq> CONNECTING \<Longrightarrow> good s (onclose e code dat s)"
  unfolding onclose_def
  by (rule good_trans [OF good_upd good_close]) simp_all

lemma good_onerror: "readyState s \<noteq> CONNECTING \<Longrightarrow> good s (onerror e err errorCode s)"
  unfolding onerror_def
  by (rule good_trans [OF good_close good_emit]) simp_all

lemma good_sender_onerror: "readyState s \<noteq> CONNECTING \<Longrightarrow> good s (sender_onerror e err s)"
  unfolding sender_onerror_def
  by (rule good_trans [OF good_close good_emit]) simp_all

lemma good_req_onerror: "good s (req_onerror err s)"
  unfolding req_onerror_def
  by (rule good_trans [OF good_emit good_cleanup]) simp_all

lemma good_req_response: "good s (req_response listened s)"
  unfolding req_response_def Let_def
  by (auto intro: good_trans [OF good_emit good_cleanup]
        good_trans [OF good_emit good_trans [OF good_eff good_trans [OF good_emit good_cleanup]]])


lemma good_step:
  "\<not> (readyState s = CONNECTING \<and> calls_close i) \<Longrightarrow> \<not> (reqUpgrade s \<and> is_upgrade i)
   \<Longrightarrow> good s (step e i s)"
proof (cases i)
  case Tick
  then show ?thesis
    by (auto intro!: good_refl good_thrown good_trans [OF good_upd good_executeQueueSends])
next
  case CloseTimerFires
  then show ?thesis
    by (auto intro!: good_refl good_trans [OF good_upd good_cleanup])
next
  case (SenderCloseDone err)
  then show ?thesis
    by (auto intro!: good_refl good_trans [OF good_upd good_close_callback])
next
  case (ReqResponse l)
  then show ?thesis
    by (auto intro!: good_refl good_trans [OF good_upd good_req_response])
qed (auto simp: calls_close_def is_upgrade_def
       intro!: good_refl good_thrown good_close good_terminate good_pause good_resume good_ping
         good_pong good_send good_stream good_stream_send good_sendStream_data
         good_sendStream_end good_cleanup good_sender_onerror good_onping good_onclose
         good_onerror good_req_onerror good_emit
       simp: ontext_def onbinary_def onpong_def)



lemma close_connecting: "readyState s = CONNECTING \<Longrightarrow> close e code dat s = s\<lparr>readyState := CLOSED\<rparr>"
  by (simp add: close_def)

lemma step_close_connecting:
  assumes c: "readyState s = CONNECTING" and i: "calls_close i"
  shows "closes (step e i s) = closes s \<and> readyState (step e i s) \<noteq> OPEN"
proof (cases i)
  case (UClose code dat)
  then show ?thesis using c by (simp add: close_connecting closes_def)
next
  case (RxClose code dat)
  then show ?thesis using c by (simp add: onclose_def close_def closes_def)
next
  case (RxError err code)
  then show ?thesis using c
    by (simp add: onerror_def close_connecting closes_def emit_def eff_def close_events_append)
next
  case (SenderError err)
  then show ?thesis using c
    by (simp add: sender_onerror_def close_connecting closes_def emit_def eff_def close_events_append)
qed (use i in \<open>simp_all add: calls_close_def\<close>)

lemma step_upgrade:
  "reqUpgrade s \<Longrightarrow>
   close_events (out (step e (ReqUpgrade h) s)) =
     close_events (out s) @ (if readyState s = CLOSED then [None] else [])
   \<and> (readyState s = CLOSED \<longrightarrow> readyState (step e (ReqUpgrade h) s) = CLOSED)
   \<and> (readyState s \<noteq> CLOSED \<longrightarrow> readyState (step e (ReqUpgrade h) s) \<noteq> CLOSED)
   \<and> attached (step e (ReqUpgrade h) s) = (attached s \<or> readyState s \<noteq> CLOSED \<and> (\<exists>d. h = Accepted d))"
  by (cases h)
     (auto simp: req_upgrade_def establishConnection_def emit_def eff_def close_events_append attached_def)



lemma attached_step: "attached s \<Longrightarrow> attached (step e i s)"
proof (cases "readyState s = CONNECTING \<and> calls_close i")
  case True
  then show ?thesis using step_close_connecting [of s i e] by (simp add: attached_def)
next
  case nc: False
  assume a: "attached s"
  show ?thesis
  proof (cases "reqUpgrade s \<and> is_upgrade i")
    case True
    then obtain h where h: "i = ReqUpgrade h" by (cases i) (simp_all add: is_upgrade_def)
    then show ?thesis using True a step_upgrade [of s e h] by simp
  next
    case False
    with nc have "good s (step e i s)" by (intro good_step) simp_all
    with a show ?thesis by (auto simp: good_def attached_def)
  qed
qed


lemmas ws_defs = initAsServerClient_def initAsClient_def new_WebSocket_def establishConnection_def
  emit_def eff_def close_def close_callback_def terminate_def cleanupWebsocketResources_def
  closeTimeout_def code_or_1000_def message_or_empty_def req_upgrade_def closes_def
  onclose_def onerror_def thrown_def send_def stream_def startQueue_def callback_of_def options_of_def
  data_or_empty_def stream_options_def send_options_def empty_options_def



text \<open>
  Claim C10: \<^verbatim>\<open>close(code, reason)\<close> on a CONNECTING endpoint sets \<open>readyState\<close> to CLOSED
  and does nothing else: no close frame is sent, the close timer is not armed, and no
  event is emitted (the log and every other field are unchanged). In the CLOSED state no
  step leaves CLOSED, and a \<open>close\<close> event is emitted later only by the upgrade handler of
  the request, when the upgrade arrives while that handler is still registered; it is
  emitted without a code.
\<close>

theorem C10_close_while_connecting:
  "(readyState s = CONNECTING \<longrightarrow>
      step e (UClose code dat) s = s\<lparr>readyState := CLOSED\<rparr>)
   \<and> (readyState s = CLOSED \<longrightarrow>
      readyState (step e i s) = CLOSED
      \<and> close_events (out (step e i s)) =
          close_events (out s) @ (if reqUpgrade s \<and> is_upgrade i then [None] else []))"
proof (intro conjI impI)
  assume "readyState s = CONNECTING"
  then show "step e (UClose code dat) s = s\<lparr>readyState := CLOSED\<rparr>"
    by (simp add: close_connecting)
next
  assume c: "readyState s = CLOSED"
  show "readyState (step e i s) = CLOSED"
  proof (cases "reqUpgrade s \<and> is_upgrade i")
    case True
    then obtain h where h: "i = ReqUpgrade h" by (cases i) (simp_all add: is_upgrade_def)
    then show ?thesis using True c step_upgrade [of s e h] by simp
  next
    case False
    with c have "good s (step e i s)" by (intro good_step) simp_all
    with c show ?thesis by (simp add: good_def)
  qed
next
  assume c: "readyState s = CLOSED"
  show "close_events (out (step e i s)) =
          close_events (out s) @ (if reqUpgrade s \<and> is_upgrade i then [None] else [])"
  proof (cases "reqUpgrade s \<and> is_upgrade i")
    case True
    then obtain h where h: "i = ReqUpgrade h" by (cases i) (simp_all add: is_upgrade_def)
    then show ?thesis using True c step_upgrade [of s e h] by simp
  next
    case False
    with c have "good s (step e i s)" by (intro good_step) simp_all
    with c False show ?thesis by (auto simp: good_def)
  qed
qed

theorem C10_close_while_connecting_witness:
  "readyState initAsClient = CONNECTING
   \<and> step \<lparr>senderClose = SenderCallsBack None, socketEndThrows = False\<rparr>
        (UClose (Some 1000) (Some ''bye'')) initAsClient = initAsClient\<lparr>readyState := CLOSED\<rparr>
   \<and> readyState (initAsClient\<lparr>readyState := CLOSED\<rparr>) = CLOSED
   \<and> close_events (out (step \<lparr>senderClose = SenderCallsBack None, socketEndThrows = False\<rparr>
        (ReqUpgrade (Accepted False)) (initAsClient\<lparr>readyState := CLOSED\<rparr>))) = [None]
   \<and> close_events (out (step \<lparr>senderClose = SenderCallsBack None, socketEndThrows = False\<rparr>
        (ReqError (Foreign 0)) (initAsClient\<lparr>readyState := CLOSED\<rparr>))) = []"
proof -
  let ?e = "\<lparr>senderClose = SenderCallsBack None, socketEndThrows = False\<rparr>"
  let ?c = "initAsClient\<lparr>readyState := CLOSED\<rparr>"
  have h1: "readyState initAsClient = CONNECTING" by (simp add: ws_defs)
  have h2: "readyState ?c = CLOSED" by simp
  have h3: "reqUpgrade ?c" by (simp add: ws_defs)
  have h4: "close_events (out ?c) = []" by (simp add: ws_defs)
  note t1 = C10_close_while_connecting [of initAsClient ?e "Some 1000" "Some ''bye''" "ReqUpgrade (Accepted False)"]
  note t2 = C10_close_while_connecting [of ?c ?e "Some 1000" "Some ''bye''" "ReqUpgrade (Accepted False)"]
  note t3 = C10_close_while_connecting [of ?c ?e "Some 1000" "Some ''bye''" "ReqError (Foreign 0)"]
  from t1 h1 have a: "step ?e (UClose (Some 1000) (Some ''bye'')) initAsClient = ?c" by blast
  from t2 h2 h3 h4 have b: "close_events (out (step ?e (ReqUpgrade (Accepted False)) ?c)) = [None]"
    by (simp add: is_upgrade_def)
  from t3 h2 h4 have c: "close_events (out (step ?e (ReqError (Foreign 0)) ?c)) = []"
    by (simp add: is_upgrade_def)
  from h1 h2 a b c show ?thesis by simp
qed

text \<open>
  Claim C2, as stated: when a close frame was received, the recorded close code is
  reported, with 1000 standing in only when none was recorded. A server endpoint on
  which \<^verbatim>\<open>close(0)\<close> was called has recorded the code 0; after the peer's close frame and
  the end of the socket it reports 1000, whether \<^verbatim>\<open>Sender.close\<close> accepted the code 0 or
  threw.
\<close>

theorem C2_counterexample:
  "closeReceived (run
      [(\<lparr>senderClose = SenderCallsBack None, socketEndThrows = False\<rparr>, UClose (Some 0) None),
       (\<lparr>senderClose = SenderCallsBack None, socketEndThrows = False\<rparr>, RxClose (Some 1000) None),
       (\<lparr>senderClose = SenderCallsBack None, socketEndThrows = False\<rparr>, SocketEnd)]
      (initAsServerClient False))
   \<and> closeCode (run
      [(\<lparr>senderClose = SenderCallsBack None, socketEndThrows = False\<rparr>, UClose (Some 0) None),
       (\<lparr>senderClose = SenderCallsBack None, socketEndThrows = False\<rparr>, RxClose (Some 1000) None),
       (\<lparr>senderClose = SenderCallsBack None, socketEndThrows = False\<rparr>, SocketEnd)]
      (initAsServerClient False)) = Some 0
   \<and> close_events (out (run
      [(\<lparr>senderClose = SenderCallsBack None, socketEndThrows = False\<rparr>, UClose (Some 0) None),
       (\<lparr>senderClose = SenderCallsBack None, socketEndThrows = False\<rparr>, RxClose (Some 1000) None),
       (\<lparr>senderClose = SenderCallsBack None, socketEndThrows = False\<rparr>, SocketEnd)]
      (initAsServerClient False))) = [Some (1000, [])]
   \<and> closeCode (run
      [(\<lparr>senderClose = SenderThrows (Foreign 0), socketEndThrows = False\<rparr>, UClose (Some 0) None),
       (\<lparr>senderClose = SenderThrows (Foreign 0), socketEndThrows = False\<rparr>, RxClose (Some 1000) None),
       (\<lparr>senderClose = SenderThrows (Foreign 0), socketEndThrows = False\<rparr>, SocketEnd)]
      (initAsServerClient False)) = Some 0
   \<and> close_events (out (run
      [(\<lparr>senderClose = SenderThrows (Foreign 0), socketEndThrows = False\<rparr>, UClose (Some 0) None),
       (\<lparr>senderClose = SenderThrows (Foreign 0), socketEndThrows = False\<rparr>, RxClose (Some 1000) None),
       (\<lparr>senderClose = SenderThrows (Foreign 0), socketEndThrows = False\<rparr>, SocketEnd)]
      (initAsServerClient False))) = [Some (1000, [])]"
  by (simp add: ws_defs)

text \<open>
  Claim C2, amended: when cleanup takes the endpoint to CLOSED, the \<open>close\<close> event carries
  1006 if the cleanup was given an error or no close frame was received; otherwise it
  carries the recorded code, or 1000 when no code or the code 0 was recorded
  (\<^verbatim>\<open>this._closeCode || 1000\<close>). The socket's \<open>end\<close> event runs the cleanup without an
  error, its \<open>close\<close> event with the \<open>hadError\<close> flag, its \<open>error\<close> event with an error.
\<close>

theorem C2_close_code:
  "(readyState s \<noteq> CLOSED \<longrightarrow>
      readyState (cleanupWebsocketResources err s) = CLOSED
      \<and> close_events (out (cleanupWebsocketResources err s)) =
          close_events (out s) @
            [Some (if err \<or> \<not> closeReceived s then 1006
                   else (case closeCode s of None \<Rightarrow> 1000
                         | Some c \<Rightarrow> if c = 0 then 1000 else c),
                   message_or_empty (closeMessage s))])
   \<and> (socket s \<longrightarrow>
        step e SocketEnd s = cleanupWebsocketResources False s
        \<and> step e (SocketClose hadError) s = cleanupWebsocketResources hadError s
        \<and> step e (SocketError x) s = cleanupWebsocketResources True s)"
  by (simp add: cleanupWebsocketResources_def Let_def emit_def eff_def close_events_append
        code_or_1000_def split: option.splits)


theorem C2_close_code_witness:
  "readyState (initAsServerClient False) \<noteq> CLOSED
   \<and> socket (initAsServerClient False)
   \<and> readyState (step \<lparr>senderClose = SenderCallsBack None, socketEndThrows = False\<rparr>
         SocketEnd (initAsServerClient False)) = CLOSED
   \<and> close_events (out (step \<lparr>senderClose = SenderCallsBack None, socketEndThrows = False\<rparr>
         SocketEnd (initAsServerClient False))) = [Some (1006, [])]
   \<and> close_events (out (cleanupWebsocketResources False
         ((initAsServerClient False)\<lparr>closeReceived := True, closeCode := Some 1001,
                                       closeMessage := Some ''away''\<rparr>))) = [Some (1001, ''away'')]"
proof -
  let ?e = "\<lparr>senderClose = SenderCallsBack None, socketEndThrows = False\<rparr>"
  let ?s = "initAsServerClient False"
  let ?t = "?s\<lparr>closeReceived := True, closeCode := Some 1001, closeMessage := Some ''away''\<rparr>"
  have h1: "readyState ?s \<noteq> CLOSED" by (simp add: ws_defs)
  have h2: "socket ?s" by (simp add: ws_defs)
  have h3: "readyState ?t \<noteq> CLOSED" by (simp add: ws_defs)
  have v: "closeReceived ?s = False" "closeMessage ?s = None" "close_events (out ?s) = []"
    "close_events (out ?t) = []"
    by (simp_all add: ws_defs)
  note a = C2_close_code [of ?s False ?e False "Foreign 0"]
  note b = C2_close_code [of ?t False ?e False "Foreign 0"]
  from a h1 h2 v have a1: "readyState (step ?e SocketEnd ?s) = CLOSED"
    and a2: "close_events (out (step ?e SocketEnd ?s)) = [Some (1006, [])]"
    by (simp_all add: message_or_empty_def)
  from b h3 v have b1: "close_events (out (cleanupWebsocketResources False ?t)) = [Some (1001, ''away'')]"
    by (simp add: message_or_empty_def)
  from h1 h2 a1 a2 b1 show ?thesis by simp
qed



text \<open>
  Claim C4, as stated: \<^verbatim>\<open>terminate()\<close> on an endpoint with an attached socket forces the
  ready state to CLOSED. On an OPEN server endpoint it leaves the endpoint CLOSING.
\<close>

theorem C4_counterexample:
  "socket (initAsServerClient False)
   \<and> readyState (step \<lparr>senderClose = SenderCallsBack None, socketEndThrows = False\<rparr>
         UTerminate (initAsServerClient False)) = CLOSING"
  by (simp add: ws_defs)

text \<open>
  Claim C4, amended: on an endpoint that is not CLOSED and has a socket attached,
  \<^verbatim>\<open>terminate()\<close> calls \<^verbatim>\<open>socket.end()\<close> at once, sets the ready state to CLOSING and arms
  the timer of 30000 ms, and changes nothing else; the endpoint is CLOSED after the next
  \<open>end\<close>, \<open>close\<close> or \<open>error\<close> event of the socket or the expiry of the timer. When
  \<^verbatim>\<open>socket.end()\<close> throws, the endpoint is CLOSED when \<^verbatim>\<open>terminate()\<close> returns.
\<close>

theorem C4_terminate:
  "(socket s \<and> readyState s \<noteq> CLOSED \<and> \<not> socketEndThrows e \<longrightarrow>
      terminate e s = s\<lparr>readyState := CLOSING, closeTimer := Some 30000,
                        out := out s @ [Socket_end]\<rparr>
      \<and> readyState (step e' SocketEnd (terminate e s)) = CLOSED
      \<and> readyState (step e' (SocketClose hadError) (terminate e s)) = CLOSED
      \<and> readyState (step e' (SocketError x) (terminate e s)) = CLOSED
      \<and> readyState (step e' CloseTimerFires (terminate e s)) = CLOSED)
   \<and> (socket s \<and> readyState s \<noteq> CLOSED \<and> socketEndThrows e \<longrightarrow>
      readyState (terminate e s) = CLOSED)"
  by (simp add: terminate_def cleanupWebsocketResources_def Let_def emit_def eff_def
        closeTimeout_def)

theorem C4_terminate_witness:
  "socket (initAsServerClient False)
   \<and> readyState (initAsServerClient False) \<noteq> CLOSED
   \<and> readyState (terminate \<lparr>senderClose = SenderCallsBack None, socketEndThrows = False\<rparr>
        (initAsServerClient False)) = CLOSING
   \<and> closeTimer (terminate \<lparr>senderClose = SenderCallsBack None, socketEndThrows = False\<rparr>
        (initAsServerClient False)) = Some 30000
   \<and> readyState (step \<lparr>senderClose = SenderCallsBack None, socketEndThrows = False\<rparr> SocketEnd
        (terminate \<lparr>senderClose = SenderCallsBack None, socketEndThrows = False\<rparr>
           (initAsServerClient False))) = CLOSED
   \<and> readyState (terminate \<lparr>senderClose = SenderCallsBack None, socketEndThrows = True\<rparr>
        (initAsServerClient False)) = CLOSED"
proof -
  let ?e = "\<lparr>senderClose = SenderCallsBack None, socketEndThrows = False\<rparr>"
  let ?t = "\<lparr>senderClose = SenderCallsBack None, socketEndThrows = True\<rparr>"
  let ?s = "initAsServerClient False"
  have h1: "socket ?s" by (simp add: ws_defs)
  have h2: "readyState ?s \<noteq> CLOSED" by (simp add: ws_defs)
  have h3: "\<not> socketEndThrows ?e" "socketEndThrows ?t" by simp_all
  note a = C4_terminate [of ?s ?e ?e False "Foreign 0"]
  note b = C4_terminate [of ?s ?t ?e False "Foreign 0"]
  from a h1 h2 h3 have a1: "terminate ?e ?s = ?s\<lparr>readyState := CLOSING,
      closeTimer := Some 30000, out := out ?s @ [Socket_end]\<rparr>"
    and a2: "readyState (step ?e SocketEnd (terminate ?e ?s)) = CLOSED"
    by blast+
  from b h1 h2 h3 have b1: "readyState (terminate ?t ?s) = CLOSED" by blast
  from a1 have a3: "readyState (terminate ?e ?s) = CLOSING"
    "closeTimer (terminate ?e ?s) = Some 30000" by simp_all
  from h1 h2 a2 a3 b1 show ?thesis by simp
qed

text \<open>
  Claim C5: while \<open>readyState\<close> is not OPEN, \<^verbatim>\<open>ping\<close> and \<^verbatim>\<open>pong\<close> throw \<^verbatim>\<open>not opened\<close> and
  change nothing, or return silently and change nothing when \<^verbatim>\<open>dontFailWhenClosed\<close> is
  \<^verbatim>\<open>true\<close>; \<^verbatim>\<open>send\<close> throws \<^verbatim>\<open>not opened\<close> and changes nothing when it was given no
  callback, and otherwise calls the callback with that error, which is the only entry
  added to the log, and changes no field of the endpoint.
\<close>

theorem C5_not_opened:
  "readyState s \<noteq> OPEN \<longrightarrow>
     ping dat options False s = (Some NotOpened, s)
     \<and> ping dat options True s = (None, s)
     \<and> pong dat options False s = (Some NotOpened, s)
     \<and> pong dat options True s = (None, s)
     \<and> send dat optarg cb s =
         (case callback_of optarg cb of
            None \<Rightarrow> (Some NotOpened, s)
          | Some f \<Rightarrow> (None, s\<lparr>out := out s @ [Callback f (Some NotOpened)]\<rparr>))"
  by (simp add: ping_def pong_def send_def eff_def Let_def split: option.splits)

theorem C5_not_opened_witness:
  "readyState initAsClient \<noteq> OPEN
   \<and> ping (DText ''x'') None False initAsClient = (Some NotOpened, initAsClient)
   \<and> pong (DText ''x'') None True initAsClient = (None, initAsClient)
   \<and> send (DText ''x'') NoOptions None initAsClient = (Some NotOpened, initAsClient)
   \<and> send (DText ''x'') (Function 7) None initAsClient =
       (None, initAsClient\<lparr>out := [Callback 7 (Some NotOpened)]\<rparr>)"
proof -
  have h: "readyState initAsClient \<noteq> OPEN" by (simp add: ws_defs)
  have o: "out initAsClient = []" by (simp add: ws_defs)
  note a = C5_not_opened [of initAsClient "DText ''x''" None NoOptions None]
  note b = C5_not_opened [of initAsClient "DText ''x''" None "Function 7" None]
  from a b h o show ?thesis by (simp add: callback_of_def)
qed

text \<open>
  Claim C6: when the Receiver reports a ping with payload \<open>p\<close> to an OPEN endpoint, the
  endpoint calls \<^verbatim>\<open>Sender.pong\<close> with the same payload, masked exactly when the endpoint is
  not a server, then emits the \<open>ping\<close> event with that payload, and does nothing else.
\<close>

theorem C6_ping_autoreply:
  "readyState s = OPEN \<and> receiver s \<longrightarrow>
     step e (RxPing p binary) s =
       s\<lparr>out := out s @
           [Sender_pong p \<lparr>opt_fin = None, opt_mask = Some (\<not> isServer s),
                           opt_binary = Some binary, opt_compress = None\<rparr>,
            Emit (EvPing p binary)]\<rparr>"
  by (simp add: onping_def pong_def control_options_def empty_options_def emit_def eff_def)

theorem C6_ping_autoreply_witness:
  "readyState (initAsServerClient False) = OPEN
   \<and> receiver (initAsServerClient False)
   \<and> out (step \<lparr>senderClose = SenderCallsBack None, socketEndThrows = False\<rparr>
        (RxPing (DBuffer [0x48, 0x65, 0x6C, 0x6C, 0x6F]) False) (initAsServerClient False)) =
       [Emit EvOpen,
        Sender_pong (DBuffer [0x48, 0x65, 0x6C, 0x6C, 0x6F])
          \<lparr>opt_fin = None, opt_mask = Some False, opt_binary = Some False, opt_compress = None\<rparr>,
        Emit (EvPing (DBuffer [0x48, 0x65, 0x6C, 0x6C, 0x6F]) False)]"
proof -
  let ?e = "\<lparr>senderClose = SenderCallsBack None, socketEndThrows = False\<rparr>"
  let ?s = "initAsServerClient False"
  have h1: "readyState ?s = OPEN" by (simp add: ws_defs)
  have h2: "receiver ?s" by (simp add: ws_defs)
  have v: "out ?s = [Emit EvOpen]" "isServer ?s" by (simp_all add: ws_defs)
  note a = C6_ping_autoreply [of ?s ?e "DBuffer [0x48, 0x65, 0x6C, 0x6C, 0x6F]" False]
  from a h1 h2 v show ?thesis by simp
qed




lemma options_of_replay [simp]:
  "options_of (case options of None \<Rightarrow> NoOptions | Some x \<Rightarrow> Options x) = options"
  by (cases options) (simp_all add: options_of_def)

lemma callback_of_replay [simp]:
  "callback_of (case options of None \<Rightarrow> NoOptions | Some x \<Rightarrow> Options x) cb = cb"
  by (cases options) (simp_all add: callback_of_def)












end
